theory Spec2Isabelle
  imports Complex_Main
begin

section \<open>Errors\<close>

text \<open>
  The exceptions the Python sources can raise, as values.  A computation that may raise
  returns \<open>error + 'a\<close>, with \<open>Inl\<close> for the exception.
\<close>

datatype error =
    NameError string
  | AttributeError string
  | IndentationError nat
  | ValueError
  | RuntimeError
  | IndexError
  | CudaError

definition thn :: "error + 'a \<Rightarrow> ('a \<Rightarrow> error + 'b) \<Rightarrow> error + 'b" where
  "thn r f = (case r of Inl e \<Rightarrow> Inl e | Inr x \<Rightarrow> f x)"

section \<open>Tensor values\<close>

text \<open>
  An entry of a float32 tensor is a finite number, one of the two infinities or NaN.
  Finite results are kept exact; what is modelled of float32 is its range: a result above
  the greatest float32 value overflows to infinity.
\<close>

datatype fval = Fin real | PInf | NInf | NaN

definition FLT_MAX :: real where
  "FLT_MAX = 340282346638528859811704183484516925440"

definition rnd :: "real \<Rightarrow> fval" where
  "rnd r = (if FLT_MAX < r then PInf else if r < - FLT_MAX then NInf else Fin r)"

fun fmul :: "fval \<Rightarrow> fval \<Rightarrow> fval" where
  "fmul NaN y = NaN"
| "fmul x NaN = NaN"
| "fmul (Fin a) (Fin b) = rnd (a * b)"
| "fmul (Fin a) PInf = (if a = 0 then NaN else if 0 < a then PInf else NInf)"
| "fmul (Fin a) NInf = (if a = 0 then NaN else if 0 < a then NInf else PInf)"
| "fmul PInf (Fin b) = (if b = 0 then NaN else if 0 < b then PInf else NInf)"
| "fmul NInf (Fin b) = (if b = 0 then NaN else if 0 < b then NInf else PInf)"
| "fmul PInf PInf = PInf"
| "fmul PInf NInf = NInf"
| "fmul NInf PInf = NInf"
| "fmul NInf NInf = PInf"

fun fadd :: "fval \<Rightarrow> fval \<Rightarrow> fval" where
  "fadd NaN y = NaN"
| "fadd x NaN = NaN"
| "fadd (Fin a) (Fin b) = rnd (a + b)"
| "fadd PInf NInf = NaN"
| "fadd NInf PInf = NaN"
| "fadd PInf y = PInf"
| "fadd NInf y = NInf"
| "fadd x PInf = PInf"
| "fadd x NInf = NInf"

fun fexp :: "fval \<Rightarrow> fval" where
  "fexp (Fin x) = rnd (exp x)"
| "fexp PInf = PInf"
| "fexp NInf = Fin 0"
| "fexp NaN = NaN"

text \<open>
  \<open>pow(-1)\<close>: the reciprocal.  One over zero is an infinity (signed zeros are not told
  apart here; \<open>reparameterize\<close> takes the absolute value next).
\<close>

fun frecip :: "fval \<Rightarrow> fval" where
  "frecip (Fin x) = (if x = 0 then PInf else rnd (1 / x))"
| "frecip PInf = Fin 0"
| "frecip NInf = Fin 0"
| "frecip NaN = NaN"

fun fabs :: "fval \<Rightarrow> fval" where
  "fabs (Fin x) = Fin \<bar>x\<bar>"
| "fabs PInf = PInf"
| "fabs NInf = PInf"
| "fabs NaN = NaN"

text \<open>
  \<open>torch.nan_to_num\<close> with its default arguments: NaN becomes zero, positive infinity
  the greatest finite value of the dtype, negative infinity the least.
\<close>

fun nan_to_num :: "fval \<Rightarrow> fval" where
  "nan_to_num NaN = Fin 0"
| "nan_to_num PInf = Fin FLT_MAX"
| "nan_to_num NInf = Fin (- FLT_MAX)"
| "nan_to_num (Fin x) = Fin x"

text \<open>\<open>clamp(min=lo, max=hi)\<close>; a NaN entry stays NaN.\<close>

fun clamp :: "real \<Rightarrow> real \<Rightarrow> fval \<Rightarrow> fval" where
  "clamp lo hi (Fin x) = Fin (min (max x lo) hi)"
| "clamp lo hi PInf = Fin hi"
| "clamp lo hi NInf = Fin lo"
| "clamp lo hi NaN = NaN"



text \<open>The constraint \<open>positive\<close> of torch.distributions: NaN is not positive.\<close>

fun fpos :: "fval \<Rightarrow> bool" where
  "fpos (Fin x) = (0 < x)"
| "fpos PInf = True"
| "fpos v = False"

text \<open>The order \<open>max\<close> uses: NaN counts as the greatest value.\<close>

fun fgt :: "fval \<Rightarrow> fval \<Rightarrow> bool" where
  "fgt NaN NaN = False"
| "fgt NaN y = True"
| "fgt x NaN = False"
| "fgt PInf PInf = False"
| "fgt PInf y = True"
| "fgt x PInf = False"
| "fgt (Fin a) (Fin b) = (b < a)"
| "fgt (Fin a) NInf = True"
| "fgt NInf y = False"

text \<open>
  A two-dimensional tensor is the list of its rows; a tensor of shape (B, N) has B rows
  of N entries (with no rows it stands for shape (0, N)).  Operations on two tensors
  raise when the shapes differ; broadcasting of dimensions of size one is not modelled.
\<close>

type_synonym mat = "fval list list"

definition shape2 :: "'a list list \<Rightarrow> nat \<Rightarrow> nat \<Rightarrow> bool" where
  "shape2 t b n \<longleftrightarrow> length t = b \<and> list_all (\<lambda>r. length r = n) t"

definition zip_mat :: "(fval \<Rightarrow> fval \<Rightarrow> fval) \<Rightarrow> mat \<Rightarrow> mat \<Rightarrow> error + mat" where
  "zip_mat f a b =
     (if map length a = map length b then Inr (map2 (map2 f) a b) else Inl RuntimeError)"

text \<open>\<open>torch.cat((a, b), dim=1)\<close>.\<close>

definition cat1 :: "mat \<Rightarrow> mat \<Rightarrow> error + mat" where
  "cat1 a b = (if length a = length b then Inr (map2 (@) a b) else Inl RuntimeError)"

text \<open>\<open>t.view((1, b, n))\<close>, without the leading dimension of size one.\<close>

definition view2 :: "nat \<Rightarrow> nat \<Rightarrow> mat \<Rightarrow> error + mat" where
  "view2 b n t =
     (if length (concat t) = b * n
      then Inr (map (\<lambda>i. take n (drop (i * n) (concat t))) [0..<b])
      else Inl RuntimeError)"

text \<open>\<open>o.max(1)[1]\<close>: for each row the index of its first greatest entry.\<close>

fun argmax_acc :: "fval \<Rightarrow> nat \<Rightarrow> nat \<Rightarrow> fval list \<Rightarrow> nat" where
  "argmax_acc best bi i [] = bi"
| "argmax_acc best bi i (x # xs) =
     (if fgt x best then argmax_acc x i (Suc i) xs else argmax_acc best bi (Suc i) xs)"

definition max1_indices :: "mat \<Rightarrow> error + nat list" where
  "max1_indices t =
     (if list_ex (\<lambda>r. r = []) t then Inl RuntimeError
      else Inr (map (\<lambda>r. argmax_acc (hd r) 0 1 (tl r)) t))"

fun collect :: "(error + 'a) list \<Rightarrow> error + 'a list" where
  "collect [] = Inr []"
| "collect (r # rs) =
     (case r of Inl e \<Rightarrow> Inl e
      | Inr x \<Rightarrow> (case collect rs of Inl e \<Rightarrow> Inl e | Inr xs \<Rightarrow> Inr (x # xs)))"

section \<open>Random number generators\<close>

text \<open>
  The generator of torch is a position in a stream of standard normal draws; seeding
  with \<open>k\<close> selects the stream \<open>G k\<close> of the generator algorithm \<open>G\<close> and rewinds it.
  \<open>torch.manual_seed\<close> seeds the generators of all devices, so one state stands for them.
\<close>

record rng =
  stream :: "nat \<Rightarrow> real"
  pos :: nat

definition manual_seed :: "(int \<Rightarrow> nat \<Rightarrow> real) \<Rightarrow> int \<Rightarrow> rng" where
  "manual_seed G k = \<lparr>stream = G k, pos = 0\<rparr>"

definition randn :: "nat \<Rightarrow> rng \<Rightarrow> fval list \<times> rng" where
  "randn n g = (map (\<lambda>i. Fin (stream g (pos g + i))) [0..<n], g\<lparr>pos := pos g + n\<rparr>)"

fun randn_rows :: "nat list \<Rightarrow> rng \<Rightarrow> mat \<times> rng" where
  "randn_rows [] g = ([], g)"
| "randn_rows (n # ns) g =
     (case randn n g of (r, g') \<Rightarrow>
        (case randn_rows ns g' of (rs, g'') \<Rightarrow> (r # rs, g'')))"

definition randn_like :: "mat \<Rightarrow> rng \<Rightarrow> mat \<times> rng" where
  "randn_like t g = randn_rows (map length t) g"

text \<open>
  Python's \<open>random\<close> module has a generator of its own, which the torch seed does not
  touch; \<open>random.random()\<close> returns a float in [0, 1).
\<close>

record pyrandom =
  raw :: "nat \<Rightarrow> nat"
  idx :: nat

definition py_random :: "pyrandom \<Rightarrow> real \<times> pyrandom" where
  "py_random p = (real (raw p (idx p) mod 2 ^ 53) / 2 ^ 53, p\<lparr>idx := Suc (idx p)\<rparr>)"

section \<open>The decoder\<close>

datatype cell_kind = LSTM | GRU | RNN

text \<open>
  The hidden state of a recurrent network: one tensor of shape (B, H) per layer, and for
  an LSTM a pair of these (hidden state and cell state).
\<close>

datatype hidden = Single "mat list" | Pair "mat list" "mat list"

fun layers :: "hidden \<Rightarrow> mat list" where
  "layers (Single h) = h"
| "layers (Pair h c) = h"

definition batch_of :: "hidden \<Rightarrow> nat" where
  "batch_of h = (case layers h of [] \<Rightarrow> 0 | l # _ \<Rightarrow> length l)"

text \<open>
  A submodule of the network (its parameters fixed) is a function of the training flag,
  its input and the generator, which dropout draws from in training mode; it may raise.
\<close>

type_synonym ('a, 'b) module = "bool \<Rightarrow> 'a \<Rightarrow> rng \<Rightarrow> error + ('b \<times> rng)"

text \<open>
  The decoder object.  \<open>step\<close> is one time step of its network: it embeds the previous
  token of every example, runs the recurrent cell on the hidden state and projects the
  result to one row of logits over the vocabulary per example.
\<close>

record DecoderRNN =
  max_length :: nat
  sos_id :: nat
  eos_id :: nat
  rnn_cell :: cell_kind
  step :: "(nat list \<times> hidden, mat \<times> hidden) module"

definition gt_column :: "nat list list option \<Rightarrow> nat \<Rightarrow> error + nat list" where
  "gt_column qs t =
     (case qs of
        None \<Rightarrow> Inl ValueError
      | Some q \<Rightarrow> (if list_all (\<lambda>r. t < length r) q then Inr (map (\<lambda>r. r ! t) q)
                   else Inl RuntimeError))"

text \<open>
  Modelled from the spec: \<open>DecoderRNN.forward\<close> (models/decoder_rnn.py is not among the
  sources).  Section 4.4: from the initial hidden state the decoder produces the scores of
  one time step after the other, always running to the maximum length; the decode function
  is applied to the logits of each step before they are recorded; at each step, with
  probability \<open>teacher_forcing_ratio\<close>, the next input is the ground-truth token instead
  of the decoder's own prediction (the argmax of the scores), and with ratio 0 decoding is
  fully autoregressive.  The first input is the start symbol.  The result is the list of
  the recorded scores and the last hidden state.
\<close>

fun decoder_loop ::
  "DecoderRNN \<Rightarrow> bool \<Rightarrow> (mat \<Rightarrow> error + mat) \<Rightarrow> real \<Rightarrow> nat list list option \<Rightarrow>
   nat \<Rightarrow> nat \<Rightarrow> nat list \<Rightarrow> hidden \<Rightarrow> rng \<Rightarrow> pyrandom \<Rightarrow>
   error + ((mat list \<times> hidden) \<times> rng \<times> pyrandom)" where
  "decoder_loop d tr fn tfr qs 0 t inp h g p = Inr (([], h), g, p)"
| "decoder_loop d tr fn tfr qs (Suc n) t inp h g p =
     thn (step d tr (inp, h) g) (\<lambda>((logits, h'), g').
     thn (fn logits) (\<lambda>scores.
     thn (max1_indices scores) (\<lambda>pred.
     (case py_random p of (u, p') \<Rightarrow>
     thn (if u < tfr then gt_column qs t else Inr pred) (\<lambda>nxt.
     thn (decoder_loop d tr fn tfr qs n (Suc t) nxt h' g' p') (\<lambda>((outs, hN), gN, pN).
     Inr ((scores # outs, hN), gN, pN)))))))"

definition DecoderRNN_forward ::
  "DecoderRNN \<Rightarrow> bool \<Rightarrow> nat list list option \<Rightarrow> hidden \<Rightarrow> (mat \<Rightarrow> error + mat) \<Rightarrow> real \<Rightarrow>
   rng \<Rightarrow> pyrandom \<Rightarrow> error + ((mat list \<times> hidden) \<times> rng \<times> pyrandom)" where
  "DecoderRNN_forward d tr inputs encoder_hidden fn tfr g p =
     decoder_loop d tr fn tfr inputs (max_length d) 0
       (replicate (batch_of encoder_hidden) (sos_id d)) encoder_hidden g p"

section \<open>The IQ model (models/iq.py)\<close>

text \<open>
  What the computation can see of the machine: whether a CUDA device is available, and
  whether autograd's gradient mode is enabled.
\<close>

record env =
  cuda_available :: bool
  grad_enabled :: bool

text \<open>
  The model object.  The submodules are built by classes that are not among the sources
  (\<open>EncoderCNN\<close>, \<open>MLP\<close>) or by torch (\<open>nn.Linear\<close>, \<open>nn.Embedding\<close>); they are
  parameters.  The submodules of the category space exist only when \<open>category_space\<close>
  holds.
\<close>

record 'i IQ =
  hidden_size :: nat
  num_layers :: nat
  bayes :: bool
  category_space :: bool
  training :: bool
  requires_grad :: bool
  alpha :: "fval list"
  encoder_cnn :: "('i list, mat) module"
  category_embedding :: "(nat list, mat) module"
  category_encoder :: "(mat, mat) module"
  category_attention :: "(mat, mat) module"
  mu_category_encoder :: "(mat, mat) module"
  logvar_category_encoder :: "(mat, mat) module"
  t_decoder :: "(mat, mat) module"
  gen_decoder :: "(mat, mat) module"
  decoder :: DecoderRNN

text \<open>Looking up a submodule of the category space on the model object.\<close>

definition category_module ::
  "'i IQ \<Rightarrow> string \<Rightarrow> ('a, 'b) module \<Rightarrow> 'a \<Rightarrow> rng \<Rightarrow> error + ('b \<times> rng)" where
  "category_module m name f x g =
     (if category_space m then f (training m) x g else Inl (AttributeError name))"

text \<open>Lines 118 and 119 of \<open>reparameterize\<close>: the scale of the noise.\<close>

definition noise_scale :: "fval list \<Rightarrow> fval list" where
  "noise_scale a = map (\<lambda>x. nan_to_num (fabs (frecip x))) a"

definition std_of :: "mat \<Rightarrow> mat" where
  "std_of logvar = map (map (\<lambda>l. fexp (fmul (Fin (1 / 2)) l))) logvar"

text \<open>
  \<open>reparameterize\<close>.  \<open>torch.zeros_like(mu).cuda()\<close> raises when no CUDA device is
  available.  \<open>Normal\<close> broadcasts its arguments and validates them on construction:
  every scale must be positive.  A sample is the location plus the scale times a standard
  normal draw.
\<close>

definition reparameterize ::
  "'i IQ \<Rightarrow> env \<Rightarrow> mat \<Rightarrow> mat \<Rightarrow> rng \<Rightarrow> error + (mat \<times> rng)" where
  "reparameterize m e mu logvar g =
     (let std = std_of logvar;
          d = noise_scale (alpha m)
      in if \<not> cuda_available e then Inl CudaError
         else if list_ex (\<lambda>r. length r \<noteq> length d) mu then Inl RuntimeError
         else if list_ex (\<lambda>x. \<not> fpos x) d then Inl ValueError
         else (case randn_like mu g of (n, g') \<Rightarrow>
           thn (zip_mat fmul (map (\<lambda>r. map2 (\<lambda>x s. fadd (fmul x s) (Fin 0)) r d) n) std)
             (\<lambda>es.
           thn (zip_mat fadd es mu) (\<lambda>z.
           Inr (map (map (\<lambda>x. fadd x (Fin (1 / 10 ^ 8)))) z, g')))))"

definition reparameterize_prev :: "mat \<Rightarrow> mat \<Rightarrow> rng \<Rightarrow> error + (mat \<times> rng)" where
  "reparameterize_prev mu logvar g =
     (let std = std_of logvar
      in (case randn_like std g of (eps, g') \<Rightarrow>
           thn (zip_mat fmul eps std) (\<lambda>es.
           thn (zip_mat fadd es mu) (\<lambda>z. Inr (z, g')))))"

definition stack_rows :: "nat list list \<Rightarrow> error + nat list list" where
  "stack_rows xs =
     (case xs of
        [] \<Rightarrow> Inl RuntimeError
      | x # _ \<Rightarrow> (if list_all (\<lambda>y. length y = length x) xs then Inr xs else Inl RuntimeError))"

definition transpose01 :: "nat list list \<Rightarrow> nat list list" where
  "transpose01 xs = map (\<lambda>i. map (\<lambda>r. r ! i) xs) [0..<length (hd xs)]"

definition parse_outputs_to_tokens :: "mat list \<Rightarrow> error + nat list list" where
  "parse_outputs_to_tokens outputs =
     thn (collect (map max1_indices outputs)) (\<lambda>outputs1.
     thn (stack_rows outputs1) (\<lambda>outputs2.
     Inr (transpose01 outputs2)))"

definition encode_images :: "'i IQ \<Rightarrow> 'i list \<Rightarrow> rng \<Rightarrow> error + (mat \<times> rng)" where
  "encode_images m images g = encoder_cnn m (training m) images g"

definition encode_categories :: "'i IQ \<Rightarrow> nat list \<Rightarrow> rng \<Rightarrow> error + (mat \<times> rng)" where
  "encode_categories m categories g =
     thn (category_module m ''category_embedding'' (category_embedding m) categories g)
       (\<lambda>(embedded_categories, g1).
     category_module m ''category_encoder'' (category_encoder m) embedded_categories g1)"

definition encode_into_t ::
  "'i IQ \<Rightarrow> env \<Rightarrow> mat \<Rightarrow> mat \<Rightarrow> rng \<Rightarrow> error + ((mat \<times> mat \<times> mat) \<times> rng)" where
  "encode_into_t m e image_features category_features g =
     thn (cat1 image_features category_features) (\<lambda>together.
     thn (category_module m ''category_attention'' (category_attention m) together g)
       (\<lambda>(attended_hiddens, g1).
     thn (category_module m ''mu_category_encoder'' (mu_category_encoder m)
            attended_hiddens g1) (\<lambda>(mus0, g2).
     thn (category_module m ''logvar_category_encoder'' (logvar_category_encoder m)
            attended_hiddens g2) (\<lambda>(logvars0, g3).
     (let mus = map (map (clamp (- 2) 2)) mus0;
          logvars = map (map (clamp (- 20) 20)) logvars0
      in thn (if bayes m then reparameterize m e mus logvars g3
              else reparameterize_prev mus logvars g3) (\<lambda>(zs, g4).
         Inr ((mus, logvars, zs), g4)))))))"

text \<open>
  Lines 280 to 295 of \<open>decode_questions\<close>: the initial hidden state of the decoder.
\<close>

definition decode_questions_hiddens ::
  "'i IQ \<Rightarrow> mat option \<Rightarrow> mat \<Rightarrow> rng \<Rightarrow> error + (hidden \<times> rng)" where
  "decode_questions_hiddens m image_features ts g =
     (let batch_size = length ts
      in thn (t_decoder m (training m) ts g) (\<lambda>(t_hiddens, g1).
         thn (case image_features of
                None \<Rightarrow> Inr (t_hiddens, g1)
              | Some f \<Rightarrow> thn (zip_mat fadd f t_hiddens) (\<lambda>s.
                           gen_decoder m (training m) s g1)) (\<lambda>(hiddens0, g2).
         thn (view2 batch_size (2 * hidden_size m) hiddens0) (\<lambda>hiddens1.
         (let hiddens = replicate (num_layers m) hiddens1
          in Inr (if rnn_cell (decoder m) = LSTM then Pair hiddens hiddens
                  else Single hiddens, g2))))))"

definition decode_questions ::
  "'i IQ \<Rightarrow> mat option \<Rightarrow> mat \<Rightarrow> nat list list option \<Rightarrow> real \<Rightarrow> (mat \<Rightarrow> error + mat) \<Rightarrow>
   rng \<Rightarrow> pyrandom \<Rightarrow>
   error + (((mat list \<times> hidden) \<times> nat list list) \<times> rng \<times> pyrandom)" where
  "decode_questions m image_features ts questions teacher_forcing_ratio decode_function g p =
     thn (decode_questions_hiddens m image_features ts g) (\<lambda>(hiddens, g1).
     thn (DecoderRNN_forward (decoder m) (training m) questions hiddens decode_function
            teacher_forcing_ratio g1 p) (\<lambda>(result, g2, p').
     thn (parse_outputs_to_tokens (fst result)) (\<lambda>preds.
     Inr ((result, preds), g2, p'))))"

definition encode_from_category ::
  "'i IQ \<Rightarrow> env \<Rightarrow> 'i list \<Rightarrow> nat list \<Rightarrow> rng \<Rightarrow> error + ((mat \<times> mat) \<times> rng)" where
  "encode_from_category m e images categories g =
     thn (encode_images m images g) (\<lambda>(image_features, g1).
     thn (encode_categories m categories g1) (\<lambda>(category_hiddens, g2).
     thn (encode_into_t m e image_features category_hiddens g2) (\<lambda>((mus, logvars, ts), g3).
     Inr ((image_features, ts), g3))))"

definition predict_from_category ::
  "'i IQ \<Rightarrow> env \<Rightarrow> 'i list \<Rightarrow> nat list \<Rightarrow> nat list list option \<Rightarrow> real \<Rightarrow>
   (mat \<Rightarrow> error + mat) \<Rightarrow> rng \<Rightarrow> pyrandom \<Rightarrow> error + (nat list list \<times> rng \<times> pyrandom)" where
  "predict_from_category m e images categories questions teacher_forcing_ratio
       decode_function g p =
     thn (encode_from_category m e images categories g) (\<lambda>((image_features, zs), g1).
     thn (decode_questions m (Some image_features) zs questions teacher_forcing_ratio
            decode_function g1 p) (\<lambda>((outputs, tokens), g2, p').
     Inr (tokens, g2, p')))"

text \<open>
  Names in \<open>forward\<close>.  A name that a function never assigns is looked up among the
  globals of its module and then among the builtins.  iq.py binds the names below at module
  level, none of them to a tensor, and the builtins have neither \<open>mus\<close> nor \<open>logvars\<close>.
\<close>

datatype pyval = TensorV mat | ObjectV

definition iq_globals :: "(string \<times> pyval) list" where
  "iq_globals =
     [(''torch'', ObjectV), (''nn'', ObjectV), (''F'', ObjectV), (''Variable'', ObjectV),
      (''Normal'', ObjectV), (''EncoderCNN'', ObjectV), (''EncoderRNN'', ObjectV),
      (''DecoderRNN'', ObjectV), (''MLP'', ObjectV), (''genQLSTM'', ObjectV),
      (''IQ'', ObjectV)]"

definition load_global :: "string \<Rightarrow> error + pyval" where
  "load_global name =
     (case map_of iq_globals name of None \<Rightarrow> Inl (NameError name) | Some v \<Rightarrow> Inr v)"

definition as_tensor :: "pyval \<Rightarrow> error + mat" where
  "as_tensor v = (case v of TensorV t \<Rightarrow> Inr t | ObjectV \<Rightarrow> Inl RuntimeError)"

definition forward ::
  "'i IQ \<Rightarrow> env \<Rightarrow> 'i list \<Rightarrow> nat list list \<Rightarrow> nat list \<Rightarrow> nat list option \<Rightarrow>
   nat list list option \<Rightarrow> real \<Rightarrow> (mat \<Rightarrow> error + mat) \<Rightarrow> rng \<Rightarrow> pyrandom \<Rightarrow>
   error + (((mat list \<times> hidden) \<times> nat list list) \<times> rng \<times> pyrandom)" where
  "forward m e images answers categories alengths questions teacher_forcing_ratio
       decode_function g p =
     thn (encode_images m images g) (\<lambda>(image_features, g1).
     thn (if bayes m
          then thn (load_global ''mus'') (\<lambda>mus.
               thn (load_global ''logvars'') (\<lambda>logvars.
               thn (as_tensor mus) (\<lambda>mus_t.
               thn (as_tensor logvars) (\<lambda>logvars_t.
               reparameterize m e mus_t logvars_t g1))))
          else thn (load_global ''mus'') (\<lambda>mus.
               thn (load_global ''logvars'') (\<lambda>logvars.
               thn (as_tensor mus) (\<lambda>mus_t.
               thn (as_tensor logvars) (\<lambda>logvars_t.
               reparameterize_prev mus_t logvars_t g1))))) (\<lambda>(zs, g2).
     decode_questions m (Some image_features) zs questions teacher_forcing_ratio
       decode_function g2 p))"

section \<open>The evaluation harness (evaluate.py)\<close>

text \<open>
  The attributes of an \<open>IQ\<close> object: the methods of the class and the attributes its
  constructor sets.  \<open>nn.Module\<close> adds attributes of its own (\<open>eval\<close>, \<open>cuda\<close>,
  \<open>parameters\<close> and others), none of them a prediction method.  Looking up any other
  name raises AttributeError; \<open>v\<close> is the value found under the name.
\<close>

definition IQ_attributes :: "string list" where
  "IQ_attributes =
     [''reparameterize'', ''flatten_parameters'', ''generator_parameters'', ''cycle_params'',
      ''info_parameters'', ''reparameterize_prev'', ''modify_hidden'',
      ''parse_outputs_to_tokens'', ''encode_images'', ''encode_categories'',
      ''encode_questions_discriminator'', ''encode_questions'', ''encode_into_t'',
      ''decode_questions'', ''forward'', ''reconstruct_inputs'', ''encode_from_category'',
      ''predict_from_category'',
      ''image_recon'', ''category_space'', ''num_categories'', ''hidden_size'',
      ''num_layers'', ''bayes'', ''encoder_cnn'', ''category_embedding'',
      ''category_encoder'', ''question_encoder'', ''q_to_c'', ''category_attention'',
      ''alpha'', ''t_decoder'', ''gen_decoder'', ''decoder'', ''mu_category_encoder'',
      ''logvar_category_encoder'', ''image_reconstructor'', ''category_reconstructor'',
      ''eval'', ''train'', ''cuda'', ''parameters'', ''load_state_dict'', ''training'']"

definition getattr_IQ :: "string \<Rightarrow> 'a \<Rightarrow> error + 'a" where
  "getattr_IQ name v =
     (if name \<in> set IQ_attributes then Inr v else Inl (AttributeError name))"

record 'i batch =
  b_images :: "'i list"
  b_questions :: "nat list list"
  b_answers :: "nat list list"
  b_categories :: "nat list"

record args =
  from_answer :: bool
  num_show :: nat

text \<open>
  Not part of the Python state: for each batch, the mode its prediction was computed in.
  An operation of torch records the gradient graph when the gradient mode is enabled
  and one of its inputs (here the parameters of the model) requires a gradient.
\<close>

record call_mode =
  in_training :: bool
  gradient_tracked :: bool

type_synonym 'i answer_predictor =
  "'i list \<Rightarrow> nat list list \<Rightarrow> nat list \<Rightarrow> rng \<Rightarrow> pyrandom \<Rightarrow>
   error + (nat list list \<times> rng \<times> pyrandom)"

text \<open>
  The body of the loop over the batches (lines 42 to 60).  Moving the batch to the CUDA
  device, when one is available, changes no value.  \<open>process_lengths\<close> and the
  vocabulary's \<open>tokens_to_words\<close> are not among the sources and are parameters, as is
  \<open>F.log_softmax\<close>, the default decode function; \<open>pfa\<close> is what a method of the
  name \<open>predict_from_answer\<close> would do, were there one.
\<close>

definition evaluate_batch ::
  "'i IQ \<Rightarrow> env \<Rightarrow> args \<Rightarrow> (nat list \<Rightarrow> string) \<Rightarrow> (nat list list \<Rightarrow> nat list) \<Rightarrow>
   'i answer_predictor \<Rightarrow> (mat \<Rightarrow> error + mat) \<Rightarrow> 'i batch \<Rightarrow>
   string list \<times> string list \<times> call_mode list \<Rightarrow> rng \<Rightarrow> pyrandom \<Rightarrow>
   error + ((string list \<times> string list \<times> call_mode list) \<times> rng \<times> pyrandom)" where
  "evaluate_batch vqg e a tokens_to_words process_lengths pfa log_softmax b acc g p =
     (case acc of (preds, gts, modes) \<Rightarrow>
     (let alengths = process_lengths (b_answers b)
      in thn (if from_answer a
              then thn (getattr_IQ ''predict_from_answer'' pfa) (\<lambda>f.
                     f (b_images b) (b_answers b) alengths g p)
              else predict_from_category vqg e (b_images b) (b_categories b) None 0
                     log_softmax g p) (\<lambda>(outputs, g', p').
         (let n = length (b_images b)
          in if length outputs < n \<or> length (b_questions b) < n then Inl IndexError
             else Inr ((preds @ map tokens_to_words (take n outputs),
                        gts @ map tokens_to_words (take n (b_questions b)),
                        modes @ [\<lparr>in_training = training vqg,
                                  gradient_tracked = (grad_enabled e \<and> requires_grad vqg)\<rparr>]),
                       g', p')))))"

fun evaluate_loop ::
  "'i IQ \<Rightarrow> env \<Rightarrow> args \<Rightarrow> (nat list \<Rightarrow> string) \<Rightarrow> (nat list list \<Rightarrow> nat list) \<Rightarrow>
   'i answer_predictor \<Rightarrow> (mat \<Rightarrow> error + mat) \<Rightarrow> 'i batch list \<Rightarrow>
   string list \<times> string list \<times> call_mode list \<Rightarrow> rng \<Rightarrow> pyrandom \<Rightarrow>
   error + ((string list \<times> string list \<times> call_mode list) \<times> rng \<times> pyrandom)" where
  "evaluate_loop vqg e a t2w pl pfa lsm [] acc g p = Inr (acc, g, p)"
| "evaluate_loop vqg e a t2w pl pfa lsm (b # bs) acc g p =
     thn (evaluate_batch vqg e a t2w pl pfa lsm b acc g p) (\<lambda>(acc', g', p').
     evaluate_loop vqg e a t2w pl pfa lsm bs acc' g' p')"

text \<open>
  \<open>evaluate\<close>: \<open>vqg.eval()\<close> clears the training flag of the model, the loop runs over
  the batches of the data loader, and the metrics (\<open>NLGEval.compute_metrics\<close>, a
  parameter) are computed from all references and predictions.  The progress bar and
  the printing are left out.  The result comes with the model as the pass leaves it and
  with the modes of the predictions.
\<close>

definition evaluate ::
  "'i IQ \<Rightarrow> env \<Rightarrow> 'i batch list \<Rightarrow> (nat list \<Rightarrow> string) \<Rightarrow>
   (string list \<Rightarrow> string list \<Rightarrow> 's) \<Rightarrow> (nat list list \<Rightarrow> nat list) \<Rightarrow> args \<Rightarrow>
   'i answer_predictor \<Rightarrow> (mat \<Rightarrow> error + mat) \<Rightarrow> rng \<Rightarrow> pyrandom \<Rightarrow>
   error + (('s \<times> string list \<times> string list) \<times> 'i IQ \<times> call_mode list \<times> rng \<times> pyrandom)"
  where
  "evaluate vqg e data_loader tokens_to_words compute_metrics process_lengths a pfa
       log_softmax g p =
     (let vqg' = vqg\<lparr>training := False\<rparr>
      in thn (evaluate_loop vqg' e a tokens_to_words process_lengths pfa log_softmax
                data_loader ([], [], []) g p) (\<lambda>((preds, gts, modes), g', p').
         Inr ((compute_metrics gts preds, gts, preds), vqg', modes, g', p')))"

section \<open>What is assumed of the submodules\<close>


text \<open>
  Modelled from the spec: the image encoder, the fusion transform, the mean projection
  and the decoder's network (\<open>EncoderCNN\<close>, \<open>MLP\<close>, \<open>DecoderRNN\<close>, not among the
  sources, and \<open>nn.Linear\<close>) and the decode function work example by example.  Sections 3
  and 4: one feature vector per image, one latent pair per example, outputs batch-aligned,
  a distribution over the vocabulary per example and time step.  So each of them returns
  as many rows as it is given.
\<close>

definition rows_kept :: "('a list, 'b list) module \<Rightarrow> bool" where
  "rows_kept f \<longleftrightarrow> (\<forall>tr x g y g'. f tr x g = Inr (y, g') \<longrightarrow> length y = length x)"

definition step_rows :: "DecoderRNN \<Rightarrow> bool" where
  "step_rows d \<longleftrightarrow>
     (\<forall>tr inp h g logits h' g'.
        step d tr (inp, h) g = Inr ((logits, h'), g') \<longrightarrow> length logits = length inp)"

definition fn_rows :: "(mat \<Rightarrow> error + mat) \<Rightarrow> bool" where
  "fn_rows fn \<longleftrightarrow> (\<forall>x y. fn x = Inr y \<longrightarrow> length y = length x)"

definition row_wise :: "'i IQ \<Rightarrow> (mat \<Rightarrow> error + mat) \<Rightarrow> bool" where
  "row_wise m fn \<longleftrightarrow>
     rows_kept (encoder_cnn m) \<and> rows_kept (category_attention m) \<and>
     rows_kept (mu_category_encoder m) \<and> step_rows (decoder m) \<and> fn_rows fn"

section \<open>A small instance\<close>

text \<open>
  A model with two-dimensional image features, one-dimensional latent space, hidden
  size 1, two decoder layers and a vocabulary of three words, on which the definitions
  can be run.  Its mean projection answers 5 and its log-variance projection minus
  infinity, whatever the input.
\<close>

definition toy_decoder :: DecoderRNN where
  "toy_decoder =
     \<lparr>max_length = 3, sos_id = 0, eos_id = 1, rnn_cell = LSTM,
      step = (\<lambda>tr (inp, h) g. Inr ((map (\<lambda>t. [Fin 0, Fin (real t), Fin 1]) inp, h), g))\<rparr>"

definition toy_model :: "unit IQ" where
  "toy_model =
     \<lparr>hidden_size = 1, num_layers = 2, bayes = False, category_space = True,
      training = True, requires_grad = True, alpha = [Fin 1],
      encoder_cnn = (\<lambda>tr imgs g. Inr (map (\<lambda>_. [Fin 0, Fin 0]) imgs, g)),
      category_embedding = (\<lambda>tr cs g. Inr (map (\<lambda>c. [Fin (real c)]) cs, g)),
      category_encoder = (\<lambda>tr x g. Inr (x, g)),
      category_attention = (\<lambda>tr x g. Inr (map (take 1) x, g)),
      mu_category_encoder = (\<lambda>tr x g. Inr (map (\<lambda>r. [Fin 5]) x, g)),
      logvar_category_encoder = (\<lambda>tr x g. Inr (map (\<lambda>r. [NInf]) x, g)),
      t_decoder = (\<lambda>tr x g. Inr (map (\<lambda>r. r @ r) x, g)),
      gen_decoder = (\<lambda>tr x g. Inr (x, g)),
      decoder = toy_decoder\<rparr>"

definition toy_env :: env where
  "toy_env = \<lparr>cuda_available = True, grad_enabled = True\<rparr>"

definition toy_rng :: rng where
  "toy_rng = manual_seed (\<lambda>k i. 0) 1234"

definition toy_pyrandom :: pyrandom where
  "toy_pyrandom = \<lparr>raw = (\<lambda>i. 0), idx = 0\<rparr>"

definition toy_batch :: "unit batch" where
  "toy_batch =
     \<lparr>b_images = [(), ()], b_questions = [[0, 2, 1], [0, 1, 1]],
      b_answers = [[2], [1]], b_categories = [3, 4]\<rparr>"

text \<open>
  Collaborators of the harness for the instance: a vocabulary with three words, the
  number of predictions as the only metric, and the lengths of the answers.
\<close>

definition toy_words :: "nat list \<Rightarrow> string" where
  "toy_words ts = concat (map (\<lambda>t. [''a'', ''b'', ''c''] ! t) ts)"

definition toy_metrics :: "string list \<Rightarrow> string list \<Rightarrow> nat" where
  "toy_metrics gts preds = length preds"

definition toy_lengths :: "nat list list \<Rightarrow> nat list" where
  "toy_lengths answers = map length answers"

definition toy_args :: args where
  "toy_args = \<lparr>from_answer = False, num_show = 10\<rparr>"

definition toy_pfa :: "unit answer_predictor" where
  "toy_pfa images answers alengths g p = Inr (map (\<lambda>_. []) images, g, p)"

section \<open>evaluate.py as a program text\<close>

text \<open>
  Python compiles a whole file before it runs its first statement.  The tokenizer keeps a
  stack of indentation widths, starting with 0.  At the first line of each logical line it
  compares the line's indentation with the top of the stack: equal, nothing happens;
  larger, the width is pushed; smaller, widths are popped until the top is not larger,
  and the width must then be the top, otherwise the file is rejected with an
  IndentationError (unindent does not match any outer indentation level).
\<close>

fun dedent :: "nat list \<Rightarrow> nat \<Rightarrow> nat list option" where
  "dedent [] col = None"
| "dedent (t # st) col =
     (if col < t then dedent st col else if col = t then Some (t # st) else None)"

fun indent_line :: "nat list \<Rightarrow> nat \<times> nat \<Rightarrow> error + nat list" where
  "indent_line [] (lno, col) = Inl (IndentationError lno)"
| "indent_line (t # st) (lno, col) =
     (if col = t then Inr (t # st)
      else if t < col then Inr (col # t # st)
      else (case dedent (t # st) col of
              None \<Rightarrow> Inl (IndentationError lno)
            | Some st' \<Rightarrow> Inr st'))"

fun tokenize_indentation :: "nat list \<Rightarrow> (nat \<times> nat) list \<Rightarrow> error + nat list" where
  "tokenize_indentation st [] = Inr st"
| "tokenize_indentation st (l # ls) =
     (case indent_line st l of
        Inl e \<Rightarrow> Inl e
      | Inr st' \<Rightarrow> tokenize_indentation st' ls)"

text \<open>
  The logical lines of src/evaluate.py: the number of the physical line each one starts
  on and the count of its leading spaces (the file has no tabs).  Blank lines, comment
  lines and the continuation lines of a bracketed expression or of a docstring do not take
  part in the indentation.
\<close>

definition evaluate_py_lines :: "(nat \<times> nat) list" where
  "evaluate_py_lines =
    [(1, 0), (4, 0), (6, 0), (7, 0), (8, 0), (9, 0), (10, 0), (11, 0), (13, 0), (14, 0),
     (15, 0), (16, 0), (17, 0), (18, 0), (19, 0), (20, 0), (22, 0), (23, 4), (34, 4),
     (35, 4), (36, 4), (37, 4), (38, 4), (39, 4), (43, 8), (44, 12), (45, 12), (46, 12),
     (47, 8), (50, 8), (51, 12), (52, 8), (53, 12), (54, 8), (55, 12), (56, 12), (58, 12),
     (59, 12), (60, 8), (62, 4), (63, 4), (64, 4), (65, 4), (66, 4), (67, 4), (68, 4),
     (69, 4), (70, 4), (73, 0), (74, 4), (81, 4), (82, 4), (84, 4), (86, 4), (87, 4),
     (88, 4), (89, 4), (90, 4), (93, 4), (99, 4), (102, 4), (105, 4), (106, 8), (109, 4),
     (110, 8), (113, 4), (114, 4), (118, 4), (121, 4), (122, 4), (136, 4), (138, 4),
     (139, 4), (142, 4), (143, 8), (144, 8), (146, 4), (149, 4), (150, 4), (151, 8),
     (152, 4), (153, 8), (154, 4), (155, 8), (158, 0), (160, 4), (163, 4), (165, 4),
     (167, 4), (169, 4), (171, 4), (172, 4), (173, 4), (174, 4), (176, 4), (178, 4),
     (181, 4), (186, 4), (188, 4), (190, 4), (192, 4), (194, 4), (196, 4), (198, 4),
     (200, 4), (202, 4), (204, 4), (206, 4), (208, 4), (210, 4), (212, 4), (214, 4),
     (217, 4), (220, 3), (224, 4), (225, 4), (226, 4), (227, 4), (229, 4)]"

text \<open>
  Running the file as a script: the file is compiled, and only then its statements run
  (the imports, the two function definitions and the \<open>__main__\<close> block, which parses the
  command line, seeds the generators and calls \<open>main\<close>).  What the statements do is the
  parameter \<open>body\<close>, a function of the command line.
\<close>

definition run_script :: "('argv \<Rightarrow> error + 'r) \<Rightarrow> 'argv \<Rightarrow> error + 'r" where
  "run_script body argv =
     (case tokenize_indentation [0] evaluate_py_lines of
        Inl e \<Rightarrow> Inl e
      | Inr _ \<Rightarrow> body argv)"

section \<open>Properties\<close>

lemma tokenize_evaluate_py:
  "tokenize_indentation [0] evaluate_py_lines = Inl (IndentationError 220)"
  unfolding evaluate_py_lines_def by simp

text \<open>
  C9: Running evaluate.py as a script fails for every command line before any statement
  of the file runs: the \<open>--dataset\<close> call of \<open>parser.add_argument\<close> on line 220 is
  indented by three spaces inside a block indented by four, so the file is rejected with
  an IndentationError, whatever the statements of the file would do.
\<close>

theorem run_script_fails:
  "run_script body argv = Inl (IndentationError 220)"
  unfolding run_script_def by (simp add: tokenize_evaluate_py)

subsection \<open>Results and errors\<close>

lemma thn_Inl [simp]: "thn (Inl e) f = Inl e"
  by (simp add: thn_def)

lemma thn_Inr [simp]: "thn (Inr x) f = f x"
  by (simp add: thn_def)

lemma thn_eq_Inr: "thn r f = Inr y \<longleftrightarrow> (\<exists>x. r = Inr x \<and> f x = Inr y)"
  by (cases r) simp_all

lemma isl_iff_not_Inr: "isl r \<longleftrightarrow> (\<forall>x. r \<noteq> Inr x)"
  by (cases r) simp_all

subsection \<open>Running the small instance\<close>

lemma exp_m10_ok [simp]:
  "\<not> exp (- 10 :: real) < - 340282346638528859811704183484516925440"
  "\<not> 340282346638528859811704183484516925440 < exp (- 10 :: real)"
proof -
  have "exp (- 10 :: real) \<le> 1" by simp
  moreover have "0 \<le> exp (- 10 :: real)" by simp
  ultimately show "\<not> exp (- 10 :: real) < - 340282346638528859811704183484516925440"
    "\<not> 340282346638528859811704183484516925440 < exp (- 10 :: real)" by linarith+
qed

lemmas model_defs =
  predict_from_category_def encode_from_category_def encode_images_def encode_categories_def
  encode_into_t_def category_module_def cat1_def reparameterize_prev_def reparameterize_def
  noise_scale_def std_of_def randn_like_def randn_def zip_mat_def rnd_def FLT_MAX_def
  decode_questions_def decode_questions_hiddens_def view2_def DecoderRNN_forward_def
  batch_of_def parse_outputs_to_tokens_def max1_indices_def stack_rows_def transpose01_def
  py_random_def Let_def numeral_2_eq_2 numeral_3_eq_3

lemmas toy_defs =
  toy_model_def toy_decoder_def toy_env_def toy_rng_def toy_pyrandom_def toy_batch_def
  manual_seed_def

lemma toy_predict:
  "predict_from_category toy_model toy_env [(), ()] [3, 4] None 0 Inr toy_rng toy_pyrandom =
     Inr ([[2, 1, 1], [2, 1, 1]],
          \<lparr>stream = \<lambda>i. 0, pos = 2\<rparr>, \<lparr>raw = \<lambda>i. 0, idx = 3\<rparr>)"
  by (simp add: model_defs toy_defs)

subsection \<open>The forward pass\<close>

lemma load_global_mus: "load_global ''mus'' = Inl (NameError ''mus'')"
  by (simp add: load_global_def iq_globals_def)

text \<open>
  C1: For every input batch, \<open>forward\<close> fails before it produces any output: once the
  images are encoded (unless that fails already), the name \<open>mus\<close> is looked up, which
  nothing in scope defines, and the call ends with a NameError, in either sampling mode.
  The encode-then-decode path \<open>predict_from_category\<close>, the one the evaluation harness
  uses, does return tokens, as it does on the small instance.
\<close>

theorem forward_fails:
  "forward m e images answers categories alengths questions tfr fn g p =
     (case encode_images m images g of
        Inl err \<Rightarrow> Inl err
      | Inr r \<Rightarrow> Inl (NameError ''mus''))
   \<and> isl (forward m e images answers categories alengths questions tfr fn g p)
   \<and> \<not> isl (predict_from_category toy_model toy_env [(), ()] [3, 4] None 0 Inr
              toy_rng toy_pyrandom)"
  by (cases "encode_images m images g") (auto simp: forward_def load_global_mus toy_predict)

subsection \<open>The scale of the noise\<close>






subsection \<open>Scaled-noise mode without a CUDA device\<close>

text \<open>
  C10: When the model is built with \<open>bayes=True\<close> and no CUDA device is available,
  \<open>reparameterize\<close> raises on moving the noise location to the device, so every call of
  \<open>encode_into_t\<close>, \<open>encode_from_category\<close> and \<open>predict_from_category\<close> fails, and
  with them the evaluation of any batch from categories, although the harness itself
  moves the batch to the device only when there is one.
\<close>

theorem bayes_without_cuda_fails:
  assumes "bayes m" and "\<not> cuda_available e"
  shows "reparameterize m e mu logvar g = Inl CudaError
    \<and> isl (encode_into_t m e image_features category_features g)
    \<and> isl (encode_from_category m e images categories g)
    \<and> isl (predict_from_category m e images categories questions tfr fn g p)
    \<and> isl (evaluate m e (b # bs) tokens_to_words compute_metrics process_lengths
             (a\<lparr>from_answer := False\<rparr>) pfa log_softmax g p)"
proof -
  have r: "reparameterize m' e mu' logvar' g' = Inl CudaError"
    for m' :: "'a IQ" and mu' logvar' g'
    using assms by (simp add: reparameterize_def)
  have t: "encode_into_t m' e f c g' \<noteq> Inr x" if "bayes m'" for m' :: "'a IQ" and f c g' x
    using that by (auto simp: encode_into_t_def thn_eq_Inr r)
  have c: "encode_from_category m' e im ca g' \<noteq> Inr x" if "bayes m'"
    for m' :: "'a IQ" and im ca g' x
    using t [OF that] by (auto simp: encode_from_category_def thn_eq_Inr)
  have q: "predict_from_category m' e im ca qs r' f g' p' \<noteq> Inr x" if "bayes m'"
    for m' :: "'a IQ" and im ca qs r' f g' p' x
    using c [OF that] by (auto simp: predict_from_category_def thn_eq_Inr)
  have b: "bayes (m\<lparr>training := False\<rparr>)" using assms(1) by simp
  have ev: "evaluate m e (b # bs) tokens_to_words compute_metrics process_lengths
             (a\<lparr>from_answer := False\<rparr>) pfa log_softmax g p \<noteq> Inr x" for x
    using q [OF b]
    by (auto simp: evaluate_def evaluate_batch_def Let_def thn_eq_Inr)
  show ?thesis using r t [OF assms(1)] c [OF assms(1)] q [OF assms(1)] ev
    by (simp add: isl_iff_not_Inr)
qed

theorem bayes_without_cuda_fails_witness:
  "bayes (toy_model\<lparr>bayes := True\<rparr>)
   \<and> \<not> cuda_available (toy_env\<lparr>cuda_available := False\<rparr>)
   \<and> reparameterize (toy_model\<lparr>bayes := True\<rparr>) (toy_env\<lparr>cuda_available := False\<rparr>)
        [[Fin 2]] [[Fin 0]] toy_rng = Inl CudaError
   \<and> isl (encode_into_t (toy_model\<lparr>bayes := True\<rparr>) (toy_env\<lparr>cuda_available := False\<rparr>)
        [[Fin 0, Fin 0]] [[Fin 3]] toy_rng)
   \<and> isl (encode_from_category (toy_model\<lparr>bayes := True\<rparr>)
        (toy_env\<lparr>cuda_available := False\<rparr>) [(), ()] [3, 4] toy_rng)
   \<and> isl (predict_from_category (toy_model\<lparr>bayes := True\<rparr>)
        (toy_env\<lparr>cuda_available := False\<rparr>) [(), ()] [3, 4] None 0 Inr toy_rng toy_pyrandom)
   \<and> isl (evaluate (toy_model\<lparr>bayes := True\<rparr>) (toy_env\<lparr>cuda_available := False\<rparr>)
        [toy_batch] toy_words toy_metrics toy_lengths (toy_args\<lparr>from_answer := False\<rparr>)
        toy_pfa Inr toy_rng toy_pyrandom)"
proof -
  have b: "bayes (toy_model\<lparr>bayes := True\<rparr>)" by simp
  have c: "\<not> cuda_available (toy_env\<lparr>cuda_available := False\<rparr>)" by simp
  show ?thesis
    using b c bayes_without_cuda_fails [OF b c, where mu = "[[Fin 2]]" and logvar = "[[Fin 0]]"
      and g = toy_rng and image_features = "[[Fin 0, Fin 0]]"
      and category_features = "[[Fin 3]]" and images = "[(), ()]" and categories = "[3, 4]"
      and questions = None and tfr = 0 and fn = Inr and p = toy_pyrandom
      and b = toy_batch and bs = "[]" and tokens_to_words = toy_words
      and compute_metrics = toy_metrics and process_lengths = toy_lengths
      and a = toy_args and pfa = toy_pfa and log_softmax = Inr]
    by simp
qed

subsection \<open>Clamping in the variational encoder\<close>



lemma category_module_Inr:
  "category_module m name f x g = Inr r \<Longrightarrow> f (training m) x g = Inr r"
  by (simp add: category_module_def split: if_splits)





subsection \<open>The initial hidden state of the decoder\<close>

lemma view2_shape: "view2 b n t = Inr v \<Longrightarrow> shape2 v b n"
proof -
  assume a: "view2 b n t = Inr v"
  then have len: "length (concat t) = b * n"
    and v: "v = map (\<lambda>i. take n (drop (i * n) (concat t))) [0..<b]"
    by (auto simp: view2_def split: if_splits)
  have "length (take n (drop (i * n) (concat t))) = n" if "i < b" for i
  proof -
    from that have "Suc i \<le> b" by simp
    then have "Suc i * n \<le> b * n" by (rule mult_le_mono1)
    then have "n \<le> b * n - i * n" by simp
    then show ?thesis by (simp add: len)
  qed
  then show ?thesis by (simp add: v shape2_def list_all_iff)
qed

lemma hiddens_form:
  assumes "decode_questions_hiddens m image_features ts g = Inr (h, g')"
  shows "\<exists>v. shape2 v (length ts) (2 * hidden_size m)
    \<and> h = (if rnn_cell (decoder m) = LSTM
           then Pair (replicate (num_layers m) v) (replicate (num_layers m) v)
           else Single (replicate (num_layers m) v))"
proof -
  from assms obtain hiddens0 v where
    "view2 (length ts) (2 * hidden_size m) hiddens0 = Inr v"
    and "h = (if rnn_cell (decoder m) = LSTM
           then Pair (replicate (num_layers m) v) (replicate (num_layers m) v)
           else Single (replicate (num_layers m) v))"
    by (auto simp: decode_questions_hiddens_def thn_eq_Inr Let_def)
  then show ?thesis using view2_shape by blast
qed

text \<open>
  C7: The initial hidden state that \<open>decode_questions\<close> builds for the decoder is one
  tensor of shape (batch, 2 * hidden_size), the same for each of the \<open>num_layers\<close>
  layers, and for an LSTM the initial cell state is the initial hidden state.
\<close>

theorem decode_questions_hiddens_layers:
  assumes "decode_questions_hiddens m image_features ts g = Inr (h, g')"
  shows "\<exists>v. shape2 v (length ts) (2 * hidden_size m)
    \<and> layers h = replicate (num_layers m) v
    \<and> h = (if rnn_cell (decoder m) = LSTM
           then Pair (replicate (num_layers m) v) (replicate (num_layers m) v)
           else Single (replicate (num_layers m) v))"
proof -
  from hiddens_form [OF assms] obtain v where
    "shape2 v (length ts) (2 * hidden_size m)"
    and "h = (if rnn_cell (decoder m) = LSTM
           then Pair (replicate (num_layers m) v) (replicate (num_layers m) v)
           else Single (replicate (num_layers m) v))"
    by blast
  then show ?thesis by (intro exI [of _ v]) auto
qed

lemma toy_hiddens:
  "decode_questions_hiddens toy_model (Some [[Fin 0, Fin 0]]) [[Fin 2]] toy_rng =
     Inr (Pair [[[Fin 2, Fin 2]], [[Fin 2, Fin 2]]] [[[Fin 2, Fin 2]], [[Fin 2, Fin 2]]],
          toy_rng)"
  by (simp add: model_defs toy_defs)

theorem decode_questions_hiddens_layers_witness:
  "decode_questions_hiddens toy_model (Some [[Fin 0, Fin 0]]) [[Fin 2]] toy_rng =
     Inr (Pair [[[Fin 2, Fin 2]], [[Fin 2, Fin 2]]] [[[Fin 2, Fin 2]], [[Fin 2, Fin 2]]],
          toy_rng)
   \<and> (\<exists>v. shape2 v (length [[Fin 2]]) (2 * hidden_size toy_model)
      \<and> layers (Pair [[[Fin 2, Fin 2]], [[Fin 2, Fin 2]]] [[[Fin 2, Fin 2]], [[Fin 2, Fin 2]]])
          = replicate (num_layers toy_model) v
      \<and> Pair [[[Fin 2, Fin 2]], [[Fin 2, Fin 2]]] [[[Fin 2, Fin 2]], [[Fin 2, Fin 2]]]
          = (if rnn_cell (decoder toy_model) = LSTM
             then Pair (replicate (num_layers toy_model) v) (replicate (num_layers toy_model) v)
             else Single (replicate (num_layers toy_model) v)))"
  using toy_hiddens decode_questions_hiddens_layers [OF toy_hiddens] by simp

subsection \<open>The shape of the predicted tokens\<close>

lemma zip_mat_length: "zip_mat f a b = Inr c \<Longrightarrow> length c = length b"
proof -
  assume "zip_mat f a b = Inr c"
  then have "map length a = map length b" and "c = map2 (map2 f) a b"
    by (auto simp: zip_mat_def split: if_splits)
  moreover from this have "length a = length b" using map_eq_imp_length_eq by blast
  ultimately show ?thesis by simp
qed

lemma reparameterize_length:
  "reparameterize m e mu logvar g = Inr (z, g') \<Longrightarrow> length z = length mu"
  by (auto simp: reparameterize_def Let_def thn_eq_Inr split: if_splits prod.splits
      dest!: zip_mat_length)

lemma reparameterize_prev_length:
  "reparameterize_prev mu logvar g = Inr (z, g') \<Longrightarrow> length z = length mu"
  by (auto simp: reparameterize_prev_def Let_def thn_eq_Inr split: prod.splits
      dest!: zip_mat_length)

lemma rows_keptD: "rows_kept f \<Longrightarrow> f tr x g = Inr (y, g') \<Longrightarrow> length y = length x"
  unfolding rows_kept_def by blast

lemma encode_into_t_rows:
  assumes "encode_into_t m e image_features category_features g = Inr ((mus, logvars, zs), g')"
    and "rows_kept (category_attention m)" and "rows_kept (mu_category_encoder m)"
  shows "length zs = length image_features"
proof -
  from assms(1) obtain together attended g1 mus0 g2 g3 where
    c: "cat1 image_features category_features = Inr together"
    and a: "category_module m ''category_attention'' (category_attention m) together g
          = Inr (attended, g1)"
    and mu: "category_module m ''mu_category_encoder'' (mu_category_encoder m) attended g1
          = Inr (mus0, g2)"
    and z: "(if bayes m then reparameterize m e (map (map (clamp (- 2) 2)) mus0) logvars g3
             else reparameterize_prev (map (map (clamp (- 2) 2)) mus0) logvars g3)
          = Inr (zs, g')"
    by (auto simp: encode_into_t_def thn_eq_Inr Let_def)
  from c have "length together = length image_features"
    by (auto simp: cat1_def split: if_splits)
  moreover have "length attended = length together"
    using rows_keptD [OF assms(2) category_module_Inr [OF a]] .
  moreover have "length mus0 = length attended"
    using rows_keptD [OF assms(3) category_module_Inr [OF mu]] .
  moreover have "length zs = length mus0"
    using z reparameterize_length reparameterize_prev_length
    by (fastforce split: if_splits)
  ultimately show ?thesis by simp
qed

lemma encode_from_category_rows:
  assumes "encode_from_category m e images categories g = Inr ((image_features, zs), g')"
    and "rows_kept (encoder_cnn m)"
    and "rows_kept (category_attention m)" and "rows_kept (mu_category_encoder m)"
  shows "length zs = length images"
proof -
  from assms(1) obtain g1 ch g2 mus logvars where
    i: "encode_images m images g = Inr (image_features, g1)"
    and t: "encode_into_t m e image_features ch g2 = Inr ((mus, logvars, zs), g')"
    by (auto simp: encode_from_category_def thn_eq_Inr)
  from i have "length image_features = length images"
    using rows_keptD [OF assms(2)] by (simp add: encode_images_def)
  with encode_into_t_rows [OF t assms(3,4)] show ?thesis by simp
qed

lemma max1_indices_length: "max1_indices t = Inr r \<Longrightarrow> length r = length t"
  by (auto simp: max1_indices_def split: if_splits)

lemma decoder_loop_outs:
  assumes "decoder_loop d tr fn tfr qs n t inp h g p = Inr ((outs, hN), gN, pN)"
    and "step_rows d" and "fn_rows fn"
  shows "length outs = n \<and> (0 < n \<longrightarrow> length (hd outs) = length inp)"
  using assms(1)
proof (induction n arbitrary: t inp h g p outs hN gN pN)
  case 0
  then show ?case by simp
next
  case (Suc n)
  obtain u p' where py: "py_random p = (u, p')" by (cases "py_random p")
  from Suc.prems obtain logits h' g' scores nxt outs' where
    st: "step d tr (inp, h) g = Inr ((logits, h'), g')"
    and f: "fn logits = Inr scores"
    and rec: "decoder_loop d tr fn tfr qs n (Suc t) nxt h' g' p' = Inr ((outs', hN), gN, pN)"
    and o: "outs = scores # outs'"
    by (auto simp: thn_eq_Inr py)
  from st assms(2) have "length logits = length inp" unfolding step_rows_def by blast
  moreover from f assms(3) have "length scores = length logits" unfolding fn_rows_def by blast
  moreover from Suc.IH [OF rec] have "length outs' = n" by simp
  ultimately show ?case by (simp add: o)
qed

lemma collect_map:
  "collect (map f xs) = Inr ys \<Longrightarrow> length ys = length xs \<and> (\<forall>i < length xs. f (xs ! i) = Inr (ys ! i))"
proof (induction xs arbitrary: ys)
  case Nil
  then show ?case by simp
next
  case (Cons x xs)
  then obtain y ys' where y: "f x = Inr y" and r: "collect (map f xs) = Inr ys'"
    and ys: "ys = y # ys'"
    by (auto split: sum.splits)
  from Cons.IH [OF r] y show ?case by (auto simp: ys nth_Cons')
qed

lemma parse_shape:
  assumes "parse_outputs_to_tokens outs = Inr tokens"
  shows "outs \<noteq> [] \<and> shape2 tokens (length (hd outs)) (length outs)"
proof -
  from assms obtain o1 o2 where c: "collect (map max1_indices outs) = Inr o1"
    and s: "stack_rows o1 = Inr o2" and t: "tokens = transpose01 o2"
    by (auto simp: parse_outputs_to_tokens_def thn_eq_Inr)
  from s have o2: "o2 = o1" and ne: "o1 \<noteq> []"
    and all: "list_all (\<lambda>y. length y = length (hd o1)) o1"
    by (auto simp: stack_rows_def split: list.splits if_splits)
  from collect_map [OF c] have len: "length o1 = length outs"
    and each: "\<forall>i < length outs. max1_indices (outs ! i) = Inr (o1 ! i)" by simp_all
  from ne len have outs: "outs \<noteq> []" by auto
  with each have "max1_indices (outs ! 0) = Inr (o1 ! 0)" by simp
  then have "length (o1 ! 0) = length (outs ! 0)" by (rule max1_indices_length)
  with ne outs have hd: "length (hd o1) = length (hd outs)" by (simp add: hd_conv_nth)
  have "shape2 (transpose01 o1) (length (hd o1)) (length o1)"
    by (simp add: transpose01_def shape2_def list_all_iff)
  with outs hd len t o2 show ?thesis by simp
qed

lemma decode_questions_shape:
  assumes "decode_questions m image_features ts questions tfr fn g p
             = Inr ((outputs, tokens), g', p')"
    and "0 < num_layers m" and "step_rows (decoder m)" and "fn_rows fn"
  shows "shape2 tokens (length ts) (max_length (decoder m))"
proof -
  from assms(1) obtain h g1 outs hN where
    hid: "decode_questions_hiddens m image_features ts g = Inr (h, g1)"
    and dec: "DecoderRNN_forward (decoder m) (training m) questions h fn tfr g1 p
                = Inr ((outs, hN), g', p')"
    and par: "parse_outputs_to_tokens outs = Inr tokens"
    by (auto simp: decode_questions_def thn_eq_Inr)
  from hiddens_form [OF hid] obtain v where v: "shape2 v (length ts) (2 * hidden_size m)"
    and h: "layers h = replicate (num_layers m) v" by (auto split: if_splits)
  from assms(2) h v have b: "batch_of h = length ts"
    by (cases "num_layers m") (auto simp: batch_of_def shape2_def)
  from decoder_loop_outs [OF dec [unfolded DecoderRNN_forward_def] assms(3,4)]
  have l: "length outs = max_length (decoder m)"
    and hd: "0 < max_length (decoder m) \<longrightarrow> length (hd outs) = batch_of h" by simp_all
  from parse_shape [OF par] have ne: "outs \<noteq> []"
    and s: "shape2 tokens (length (hd outs)) (length outs)" by simp_all
  from ne l have "0 < max_length (decoder m)" by (cases outs) auto
  with hd b l s show ?thesis by simp
qed

text \<open>
  C5: The token matrix that \<open>predict_from_category\<close> returns has as many rows as the
  input batch has images and as many columns as the decoder's maximum length: the decoder
  records that many steps, each is reduced to one token per example by the argmax over the
  vocabulary, and the steps are stacked and transposed.
\<close>

theorem predict_from_category_shape:
  assumes "predict_from_category m e images categories questions tfr fn g p
             = Inr (tokens, g', p')"
    and "row_wise m fn" and "0 < num_layers m"
  shows "shape2 tokens (length images) (max_length (decoder m))"
proof -
  from assms(1) obtain image_features zs g1 outputs where
    enc: "encode_from_category m e images categories g = Inr ((image_features, zs), g1)"
    and dec: "decode_questions m (Some image_features) zs questions tfr fn g1 p
                = Inr ((outputs, tokens), g', p')"
    by (auto simp: predict_from_category_def thn_eq_Inr)
  from assms(2) have r: "rows_kept (encoder_cnn m)" "rows_kept (category_attention m)"
    "rows_kept (mu_category_encoder m)" "step_rows (decoder m)" "fn_rows fn"
    by (simp_all add: row_wise_def)
  from encode_from_category_rows [OF enc r(1,2,3)] have "length zs = length images" .
  with decode_questions_shape [OF dec assms(3) r(4,5)] show ?thesis by simp
qed

lemma toy_row_wise: "row_wise toy_model Inr"
  by (auto simp: row_wise_def rows_kept_def step_rows_def fn_rows_def toy_model_def
      toy_decoder_def)

theorem predict_from_category_shape_witness:
  "predict_from_category toy_model toy_env [(), ()] [3, 4] None 0 Inr toy_rng toy_pyrandom =
     Inr ([[2, 1, 1], [2, 1, 1]],
          \<lparr>stream = \<lambda>i. 0, pos = 2\<rparr>, \<lparr>raw = \<lambda>i. 0, idx = 3\<rparr>)
   \<and> row_wise toy_model Inr \<and> 0 < num_layers toy_model
   \<and> shape2 [[2, 1, 1], [2, 1, 1 :: nat]] (length [(), ()]) (max_length (decoder toy_model))"
proof -
  have n: "0 < num_layers toy_model" by (simp add: toy_model_def)
  show ?thesis
    using toy_predict toy_row_wise n
      predict_from_category_shape [OF toy_predict toy_row_wise n]
    by simp
qed

subsection \<open>Repeating a prediction\<close>

lemma py_random_nonneg: "py_random p = (u, p') \<Longrightarrow> \<not> u < 0"
  by (auto simp: py_random_def)

lemma decoder_loop_ratio0:
  "map_sum id (\<lambda>(r, g', p'). (r, g')) (decoder_loop d tr fn 0 qs n t inp h g p1) =
   map_sum id (\<lambda>(r, g', p'). (r, g')) (decoder_loop d tr fn 0 qs n t inp h g p2)"
proof (induction n arbitrary: t inp h g p1 p2)
  case 0
  show ?case by simp
next
  case (Suc n)
  obtain u1 q1 where py1: "py_random p1 = (u1, q1)" by (cases "py_random p1")
  obtain u2 q2 where py2: "py_random p2 = (u2, q2)" by (cases "py_random p2")
  note nn = py_random_nonneg [OF py1] py_random_nonneg [OF py2]
  show ?case
  proof (cases "step d tr (inp, h) g")
    case (Inl err)
    then show ?thesis by simp
  next
    case (Inr r)
    obtain logits h' g' where r: "r = ((logits, h'), g')" by (cases r) auto
    show ?thesis
    proof (cases "fn logits")
      case (Inl err)
      with Inr r show ?thesis by simp
    next
      case scores: (Inr scores)
      show ?thesis
      proof (cases "max1_indices scores")
        case (Inl err)
        with Inr r scores show ?thesis by simp
      next
        case pred: (Inr pred)
        have ih: "map_sum id (\<lambda>(r, g', p'). (r, g'))
                    (decoder_loop d tr fn 0 qs n (Suc t) pred h' g' q1) =
                  map_sum id (\<lambda>(r, g', p'). (r, g'))
                    (decoder_loop d tr fn 0 qs n (Suc t) pred h' g' q2)"
          by (rule Suc.IH)
        then show ?thesis
          using Inr r scores pred py1 py2 nn
          by (cases "decoder_loop d tr fn 0 qs n (Suc t) pred h' g' q1";
              cases "decoder_loop d tr fn 0 qs n (Suc t) pred h' g' q2")
            (auto)
      qed
    qed
  qed
qed

lemma map_sum_thn:
  "map_sum id f (thn r K) = (case r of Inl err \<Rightarrow> Inl err | Inr x \<Rightarrow> map_sum id f (K x))"
  by (cases r) simp_all

lemma decode_questions_ratio0:
  "map_sum id (\<lambda>((result, preds), g', p'). preds)
     (decode_questions m image_features ts questions 0 fn g p1) =
   map_sum id (\<lambda>((result, preds), g', p'). preds)
     (decode_questions m image_features ts questions 0 fn g p2)"
proof (cases "decode_questions_hiddens m image_features ts g")
  case (Inl err)
  then show ?thesis by (simp add: decode_questions_def)
next
  case (Inr r)
  obtain h g1 where r: "r = (h, g1)" by (cases r)
  have "map_sum id (\<lambda>(r, g', p'). (r, g'))
          (DecoderRNN_forward (decoder m) (training m) questions h fn 0 g1 p1) =
        map_sum id (\<lambda>(r, g', p'). (r, g'))
          (DecoderRNN_forward (decoder m) (training m) questions h fn 0 g1 p2)"
    unfolding DecoderRNN_forward_def by (rule decoder_loop_ratio0)
  then show ?thesis
    using Inr r
    by (cases "DecoderRNN_forward (decoder m) (training m) questions h fn 0 g1 p1";
        cases "DecoderRNN_forward (decoder m) (training m) questions h fn 0 g1 p2")
      (auto simp: decode_questions_def map_sum_thn split: sum.splits)
qed

text \<open>
  C6: Two invocations of \<open>predict_from_category\<close> with teacher forcing ratio 0, the
  same inputs, the same model and the torch generator reset to the same seed before each
  yield the same tokens (or raise the same error), whatever state each finds Python's own
  generator in, which the seed does not reset and the first invocation advances.
\<close>

theorem predict_from_category_deterministic:
  "map_sum id fst (predict_from_category m e images categories questions 0 fn
                     (manual_seed G k) p1) =
   map_sum id fst (predict_from_category m e images categories questions 0 fn
                     (manual_seed G k) p2)"
proof (cases "encode_from_category m e images categories (manual_seed G k)")
  case (Inl err)
  then show ?thesis by (simp add: predict_from_category_def)
next
  case (Inr r)
  obtain image_features zs g1 where r: "r = ((image_features, zs), g1)" by (cases r) auto
  show ?thesis
    using Inr r decode_questions_ratio0 [of m "Some image_features" zs questions fn g1 p1 p2]
    by (cases "decode_questions m (Some image_features) zs questions 0 fn g1 p1";
        cases "decode_questions m (Some image_features) zs questions 0 fn g1 p2")
      (auto simp: predict_from_category_def)
qed

subsection \<open>The mode from answers\<close>

lemma getattr_predict_from_answer:
  "getattr_IQ ''predict_from_answer'' v = Inl (AttributeError ''predict_from_answer'')"
  by (simp add: getattr_IQ_def IQ_attributes_def)

text \<open>
  C3: The harness has a mode from answers and a mode from categories.  In the mode from
  answers it calls \<open>predict_from_answer\<close> on the model, an operation the model does not
  have: with any batch to evaluate, the pass ends with an AttributeError instead of a
  token matrix.
\<close>

theorem evaluate_from_answer_fails:
  "evaluate vqg e (b # bs) tokens_to_words compute_metrics process_lengths
     (a\<lparr>from_answer := True\<rparr>) pfa log_softmax g p
   = Inl (AttributeError ''predict_from_answer'')"
  by (simp add: evaluate_def evaluate_batch_def getattr_predict_from_answer Let_def)

subsection \<open>The mode of the evaluation pass\<close>








end
